theory Spec2Isabelle
  imports Main
begin

section \<open>Identities and nodes\<close>

text \<open>
  \<^verbatim>\<open>type nid string\<close> is the one implementation of the interface \<^verbatim>\<open>ID\<close> in
  \<^verbatim>\<open>kraph.go\<close>; \<^verbatim>\<open>String()\<close> returns the underlying string.
\<close>

datatype ID = nid string

fun String :: "ID \<Rightarrow> string" where
  "String (nid s) = s"

definition NewNID :: "string \<Rightarrow> ID" where
  "NewNID s = nid s"

text \<open>
  \<^verbatim>\<open>type node struct { id ID }\<close>. The interface \<^verbatim>\<open>Node\<close> asks for \<^verbatim>\<open>GetId()\<close> only, so
  an implementation may carry more than its identity: a \<^verbatim>\<open>Node\<close> is any extension of the
  record, and the struct \<^verbatim>\<open>node\<close> is the record without extension. The field \<^verbatim>\<open>id\<close> is
  named \<open>node_id\<close> here, \<open>id\<close> being the identity function of HOL.
\<close>

record node =
  node_id :: ID

definition GetId :: "'m node_scheme \<Rightarrow> ID" where
  "GetId n = node_id n"

definition NewNode :: "ID \<Rightarrow> node" where
  "NewNode i = \<lparr>node_id = i\<rparr>"

section \<open>The graph\<close>

text \<open>
  The three maps of \<^verbatim>\<open>type graph struct\<close>. Weights are \<^verbatim>\<open>float64\<close> in the source; the
  embedding leaves the weight type \<open>'w\<close> open and asks of it an addition only, which
  is all \<^verbatim>\<open>kraph.go\<close> does with a weight. Go maps are finite and unordered: they are
  partial functions here, and a loop over a map is written pointwise where its result
  does not depend on the order of iteration. The field \<^verbatim>\<open>mu\<close> holds no data the methods
  compute with; the calls they make on it are listed by \<open>mu_calls\<close> below. A method
  that changes the receiver returns the new store beside its result, and the parameter
  \<^verbatim>\<open>id\<close> of the methods is written \<open>i\<close>.
\<close>

record ('m, 'w) graph =
  nodeList :: "ID \<rightharpoonup> 'm node_scheme"
  nodeSources :: "ID \<rightharpoonup> (ID \<rightharpoonup> 'w)"
  nodeTargets :: "ID \<rightharpoonup> (ID \<rightharpoonup> 'w)"

text \<open>
  The two messages of \<^verbatim>\<open>fmt.Errorf\<close> in the source:
  \<open>NodeNotFound x\<close> is \<^verbatim>\<open>"%s does not exist in graph", x\<close> and
  \<open>EdgeNotFound p i\<close> is \<^verbatim>\<open>"there is no edge from %s to %s", p, i\<close>.
\<close>

datatype error = NodeNotFound ID | EdgeNotFound ID ID

definition NewGraph :: "('m, 'w) graph" where
  "NewGraph = \<lparr>nodeList = Map.empty, nodeSources = Map.empty, nodeTargets = Map.empty\<rparr>"

definition Init :: "('m, 'w) graph \<Rightarrow> ('m, 'w) graph" where
  "Init g = g\<lparr>nodeList := Map.empty, nodeSources := Map.empty, nodeTargets := Map.empty\<rparr>"

definition GetNodeCount :: "('m, 'w) graph \<Rightarrow> nat" where
  "GetNodeCount g = card (dom (nodeList g))"

definition GetNode :: "ID \<Rightarrow> ('m, 'w) graph \<Rightarrow> 'm node_scheme option" where
  "GetNode i g = nodeList g i"

definition GetNodes :: "('m, 'w) graph \<Rightarrow> (ID \<rightharpoonup> 'm node_scheme)" where
  "GetNodes g = nodeList g"

definition unsafeIdExist :: "('m, 'w) graph \<Rightarrow> ID \<Rightarrow> bool" where
  "unsafeIdExist g i = (case nodeList g i of None \<Rightarrow> False | Some _ \<Rightarrow> True)"

definition AddNode :: "'m node_scheme \<Rightarrow> ('m, 'w) graph \<Rightarrow> bool \<times> ('m, 'w) graph" where
  "AddNode nd g =
     (if unsafeIdExist g (GetId nd) then (False, g)
      else (True, g\<lparr>nodeList := (nodeList g)(GetId nd \<mapsto> nd)\<rparr>))"

text \<open>
  \<^verbatim>\<open>for _, tmap := range m { delete(tmap, id) }\<close>: every inner map loses the key.
\<close>

definition delete_in_all :: "ID \<Rightarrow> (ID \<rightharpoonup> (ID \<rightharpoonup> 'w)) \<Rightarrow> (ID \<rightharpoonup> (ID \<rightharpoonup> 'w))" where
  "delete_in_all i m = (\<lambda>k. case m k of None \<Rightarrow> None | Some tmap \<Rightarrow> Some (tmap(i := None)))"

definition DeleteNode :: "ID \<Rightarrow> ('m, 'w) graph \<Rightarrow> bool \<times> ('m, 'w) graph" where
  "DeleteNode i g =
     (if \<not> unsafeIdExist g i then (False, g)
      else (True, g\<lparr>nodeList := (nodeList g)(i := None),
                     nodeTargets := delete_in_all i ((nodeTargets g)(i := None)),
                     nodeSources := delete_in_all i ((nodeSources g)(i := None))\<rparr>))"

text \<open>
  The block of \<^verbatim>\<open>AddEdge\<close> that updates one index: \<open>add_entry m a b wgt\<close> is the source's
  \<^verbatim>\<open>if _, ok := m[a]; ok { if w, ok2 := m[a][b]; ok2 { m[a][b] = w + wgt } else
  { m[a][b] = wgt } } else { m[a] = map[ID]float64{b: wgt} }\<close>.
\<close>

definition add_entry ::
  "(ID \<rightharpoonup> (ID \<rightharpoonup> 'w::plus)) \<Rightarrow> ID \<Rightarrow> ID \<Rightarrow> 'w \<Rightarrow> (ID \<rightharpoonup> (ID \<rightharpoonup> 'w))" where
  "add_entry m a b wgt =
     (case m a of
        Some inner \<Rightarrow>
          (case inner b of
             Some w \<Rightarrow> m(a \<mapsto> inner(b \<mapsto> w + wgt))
           | None \<Rightarrow> m(a \<mapsto> inner(b \<mapsto> wgt)))
      | None \<Rightarrow> m(a \<mapsto> [b \<mapsto> wgt]))"

definition AddEdge ::
  "ID \<Rightarrow> ID \<Rightarrow> 'w::plus \<Rightarrow> ('m, 'w) graph \<Rightarrow> error option \<times> ('m, 'w) graph" where
  "AddEdge i pid wgt g =
     (if \<not> unsafeIdExist g i then (Some (NodeNotFound i), g)
      else if \<not> unsafeIdExist g pid then (Some (NodeNotFound pid), g)
      else (None, g\<lparr>nodeTargets := add_entry (nodeTargets g) pid i wgt,
                     nodeSources := add_entry (nodeSources g) i pid wgt\<rparr>))"

text \<open>
  The block of \<^verbatim>\<open>ReplaceEdge\<close>:
  \<^verbatim>\<open>if _, ok := m[a]; ok { m[a][b] = wgt } else { m[a] = map[ID]float64{b: wgt} }\<close>.
\<close>

definition replace_entry ::
  "(ID \<rightharpoonup> (ID \<rightharpoonup> 'w)) \<Rightarrow> ID \<Rightarrow> ID \<Rightarrow> 'w \<Rightarrow> (ID \<rightharpoonup> (ID \<rightharpoonup> 'w))" where
  "replace_entry m a b wgt =
     (case m a of
        Some inner \<Rightarrow> m(a \<mapsto> inner(b \<mapsto> wgt))
      | None \<Rightarrow> m(a \<mapsto> [b \<mapsto> wgt]))"

definition ReplaceEdge ::
  "ID \<Rightarrow> ID \<Rightarrow> 'w \<Rightarrow> ('m, 'w) graph \<Rightarrow> error option \<times> ('m, 'w) graph" where
  "ReplaceEdge i pid wgt g =
     (if \<not> unsafeIdExist g i then (Some (NodeNotFound i), g)
      else if \<not> unsafeIdExist g pid then (Some (NodeNotFound pid), g)
      else (None, g\<lparr>nodeTargets := replace_entry (nodeTargets g) pid i wgt,
                     nodeSources := replace_entry (nodeSources g) i pid wgt\<rparr>))"

text \<open>
  The block of \<^verbatim>\<open>DeleteEdge\<close>:
  \<^verbatim>\<open>if _, ok := m[a]; ok { if _, ok := m[a][b]; ok { delete(m[a], b) } }\<close>.
\<close>

definition delete_entry ::
  "(ID \<rightharpoonup> (ID \<rightharpoonup> 'w)) \<Rightarrow> ID \<Rightarrow> ID \<Rightarrow> (ID \<rightharpoonup> (ID \<rightharpoonup> 'w))" where
  "delete_entry m a b =
     (case m a of
        Some inner \<Rightarrow>
          (case inner b of
             Some _ \<Rightarrow> m(a \<mapsto> inner(b := None))
           | None \<Rightarrow> m)
      | None \<Rightarrow> m)"

definition DeleteEdge ::
  "ID \<Rightarrow> ID \<Rightarrow> ('m, 'w) graph \<Rightarrow> error option \<times> ('m, 'w) graph" where
  "DeleteEdge i pid g =
     (if \<not> unsafeIdExist g i then (Some (NodeNotFound i), g)
      else if \<not> unsafeIdExist g pid then (Some (NodeNotFound pid), g)
      else (None, g\<lparr>nodeTargets := delete_entry (nodeTargets g) pid i,
                     nodeSources := delete_entry (nodeSources g) i pid\<rparr>))"

definition GetWeight :: "ID \<Rightarrow> ID \<Rightarrow> ('m, 'w) graph \<Rightarrow> error + 'w" where
  "GetWeight i pid g =
     (if \<not> unsafeIdExist g i then Inl (NodeNotFound i)
      else if \<not> unsafeIdExist g pid then Inl (NodeNotFound pid)
      else (case nodeSources g i of
              Some inner \<Rightarrow>
                (case inner pid of
                   Some w \<Rightarrow> Inr w
                 | None \<Rightarrow> Inl (EdgeNotFound pid i))
            | None \<Rightarrow> Inl (EdgeNotFound pid i)))"

text \<open>
  \<^verbatim>\<open>GetSources\<close> and \<^verbatim>\<open>GetTargets\<close> return a fresh \<^verbatim>\<open>map[ID]Node\<close> with one key for every
  key of the inner map; the value is \<^verbatim>\<open>g.nodeList[pid]\<close>, which is \<^verbatim>\<open>nil\<close> (\<open>None\<close>)
  when the node map has no such key.
\<close>

definition neighbours ::
  "('m, 'w) graph \<Rightarrow> (ID \<rightharpoonup> 'w) option \<Rightarrow> (ID \<rightharpoonup> 'm node_scheme option)" where
  "neighbours g entry =
     (case entry of
        Some inner \<Rightarrow> (\<lambda>pid. case inner pid of None \<Rightarrow> None | Some _ \<Rightarrow> Some (nodeList g pid))
      | None \<Rightarrow> Map.empty)"

definition GetSources ::
  "ID \<Rightarrow> ('m, 'w) graph \<Rightarrow> error + (ID \<rightharpoonup> 'm node_scheme option)" where
  "GetSources i g =
     (if \<not> unsafeIdExist g i then Inl (NodeNotFound i)
      else Inr (neighbours g (nodeSources g i)))"

definition GetTargets ::
  "ID \<Rightarrow> ('m, 'w) graph \<Rightarrow> error + (ID \<rightharpoonup> 'm node_scheme option)" where
  "GetTargets pid g =
     (if \<not> unsafeIdExist g pid then Inl (NodeNotFound pid)
      else Inr (neighbours g (nodeTargets g pid)))"

text \<open>
  \<^verbatim>\<open>JSON\<close> builds \<^verbatim>\<open>rs := make(map[string]map[string]float64)\<close> in two nested \<^verbatim>\<open>range\<close>
  loops and hands it to \<^verbatim>\<open>ffjson.Marshal\<close>, a library outside the repository: the
  embedding stops at \<^verbatim>\<open>rs\<close>. Go fixes no order for \<^verbatim>\<open>range\<close> over a map, and here the
  result depends on it, so the order is an argument: \<open>ids\<close> lists the keys of
  \<^verbatim>\<open>g.nodeList\<close> and \<open>ord i\<close> the keys of \<^verbatim>\<open>smap\<close> for the node \<open>i\<close>, each in the order
  the loop visits them.
\<close>

definition JSON_step ::
  "ID \<Rightarrow> ID \<Rightarrow> ('m, 'w) graph \<Rightarrow> (string \<rightharpoonup> (string \<rightharpoonup> 'w)) \<Rightarrow> (string \<rightharpoonup> (string \<rightharpoonup> 'w))" where
  "JSON_step i pid g rs =
     (case GetWeight i pid g of
        Inr wgt \<Rightarrow>
          (case rs (String i) of
             Some inner \<Rightarrow> rs(String i \<mapsto> inner(String i \<mapsto> wgt))
           | None \<Rightarrow> rs(String i \<mapsto> [String pid \<mapsto> wgt]))
      | Inl _ \<Rightarrow> rs)"

fun JSON_pids ::
  "ID \<Rightarrow> ID list \<Rightarrow> ('m, 'w) graph \<Rightarrow> (string \<rightharpoonup> (string \<rightharpoonup> 'w)) \<Rightarrow> (string \<rightharpoonup> (string \<rightharpoonup> 'w))" where
  "JSON_pids i [] g rs = rs"
| "JSON_pids i (pid # pids) g rs = JSON_pids i pids g (JSON_step i pid g rs)"

fun JSON_ids ::
  "(ID \<Rightarrow> ID list) \<Rightarrow> ID list \<Rightarrow> ('m, 'w) graph \<Rightarrow> (string \<rightharpoonup> (string \<rightharpoonup> 'w))
     \<Rightarrow> (string \<rightharpoonup> (string \<rightharpoonup> 'w))" where
  "JSON_ids ord [] g rs = rs"
| "JSON_ids ord (i # ids) g rs =
     (case GetSources i g of
        Inl _ \<Rightarrow> JSON_ids ord ids g rs
      | Inr smap \<Rightarrow> JSON_ids ord ids g (JSON_pids i (ord i) g rs))"

definition JSON ::
  "ID list \<Rightarrow> (ID \<Rightarrow> ID list) \<Rightarrow> ('m, 'w) graph \<Rightarrow> (string \<rightharpoonup> (string \<rightharpoonup> 'w))" where
  "JSON ids ord g = JSON_ids ord ids g Map.empty"

text \<open>
  The calls on \<^verbatim>\<open>g.mu\<close> (a \<^verbatim>\<open>sync.RWMutex\<close>) that the body of each mutating method
  makes, in the order they run: \<^verbatim>\<open>g.mu.Lock()\<close> first and the deferred
  \<^verbatim>\<open>g.mu.Unlock()\<close> at return, where the source has them.
\<close>

datatype mu_call = Lock | Unlock | RLock | RUnlock

datatype mutator = M_Init | M_AddNode | M_DeleteNode | M_AddEdge | M_ReplaceEdge | M_DeleteEdge

fun mu_calls :: "mutator \<Rightarrow> mu_call list" where
  "mu_calls M_Init = []"
| "mu_calls M_AddNode = [Lock, Unlock]"
| "mu_calls M_DeleteNode = [Lock, Unlock]"
| "mu_calls M_AddEdge = [Lock, Unlock]"
| "mu_calls M_ReplaceEdge = [Lock, Unlock]"
| "mu_calls M_DeleteEdge = [Lock, Unlock]"

section \<open>Notions the properties are stated with\<close>

text \<open>
  The two-value read \<^verbatim>\<open>w, ok := m[a][b]\<close> of an index: \<open>None\<close> when the outer or the
  inner key is missing (reading a missing outer key gives a nil map in Go, and reading
  a nil map gives \<^verbatim>\<open>ok == false\<close>).
\<close>

definition entry :: "(ID \<rightharpoonup> (ID \<rightharpoonup> 'w)) \<Rightarrow> ID \<Rightarrow> ID \<Rightarrow> 'w option" where
  "entry m a b = (case m a of None \<Rightarrow> None | Some inner \<Rightarrow> inner b)"

text \<open>
  The states a client can bring the store into: \<^verbatim>\<open>NewGraph()\<close> followed by any
  sequence of the mutating methods of the interface \<^verbatim>\<open>Graph\<close>, whatever they return.
  The queries leave the three maps as they are.
\<close>

inductive reachable :: "('m, 'w::plus) graph \<Rightarrow> bool" where
  reach_NewGraph: "reachable NewGraph"
| reach_Init: "reachable g \<Longrightarrow> reachable (Init g)"
| reach_AddNode: "reachable g \<Longrightarrow> reachable (snd (AddNode nd g))"
| reach_DeleteNode: "reachable g \<Longrightarrow> reachable (snd (DeleteNode i g))"
| reach_AddEdge: "reachable g \<Longrightarrow> reachable (snd (AddEdge i pid wgt g))"
| reach_ReplaceEdge: "reachable g \<Longrightarrow> reachable (snd (ReplaceEdge i pid wgt g))"
| reach_DeleteEdge: "reachable g \<Longrightarrow> reachable (snd (DeleteEdge i pid g))"

text \<open>
  A client calling \<^verbatim>\<open>AddEdge\<close> with the same two arguments once for each weight of a
  list, stopping at the first error.
\<close>

fun AddEdges ::
  "ID \<Rightarrow> ID \<Rightarrow> 'w::plus list \<Rightarrow> ('m, 'w) graph \<Rightarrow> error option \<times> ('m, 'w) graph" where
  "AddEdges i pid [] g = (None, g)"
| "AddEdges i pid (wgt # wgts) g =
     (case AddEdge i pid wgt g of
        (None, g') \<Rightarrow> AddEdges i pid wgts g'
      | (Some e, g') \<Rightarrow> (Some e, g'))"

text \<open>
  The stores of the examples: the three nodes of \<^verbatim>\<open>TestNewGraph\<close>, and the same store
  after \<^verbatim>\<open>AddEdge(node1, node2, 12)\<close> and \<^verbatim>\<open>AddEdge(node1, node3, 10)\<close>.
\<close>

definition three_nodes :: "(unit, int) graph" where
  "three_nodes =
     snd (AddNode (NewNode (NewNID ''node3''))
       (snd (AddNode (NewNode (NewNID ''node2''))
         (snd (AddNode (NewNode (NewNID ''node1'')) NewGraph)))))"

definition two_edges :: "(unit, int) graph" where
  "two_edges =
     snd (AddEdge (NewNID ''node1'') (NewNID ''node3'') 10
       (snd (AddEdge (NewNID ''node1'') (NewNID ''node2'') 12 three_nodes)))"

section \<open>Reading the indices\<close>

lemma unsafeIdExist_iff: "unsafeIdExist g i \<longleftrightarrow> nodeList g i \<noteq> None"
  by (simp add: unsafeIdExist_def split: option.splits)

lemma entry_add_entry:
  "entry (add_entry m a b wgt) a' b' =
     (if a' = a \<and> b' = b then Some (case entry m a b of Some w \<Rightarrow> w + wgt | None \<Rightarrow> wgt)
      else entry m a' b')"
  by (auto simp: entry_def add_entry_def split: option.splits)

lemma entry_replace_entry:
  "entry (replace_entry m a b wgt) a' b' = (if a' = a \<and> b' = b then Some wgt else entry m a' b')"
  by (auto simp: entry_def replace_entry_def split: option.splits)

lemma entry_delete_entry:
  "entry (delete_entry m a b) a' b' = (if a' = a \<and> b' = b then None else entry m a' b')"
  by (auto simp: entry_def delete_entry_def split: option.splits)

lemma entry_delete_in_all:
  "entry (delete_in_all i (m(i := None))) a b = (if a = i \<or> b = i then None else entry m a b)"
  by (auto simp: entry_def delete_in_all_def split: option.splits)

lemma GetWeight_entry:
  "GetWeight i pid g =
     (if \<not> unsafeIdExist g i then Inl (NodeNotFound i)
      else if \<not> unsafeIdExist g pid then Inl (NodeNotFound pid)
      else case entry (nodeSources g) i pid of
             Some w \<Rightarrow> Inr w
           | None \<Rightarrow> Inl (EdgeNotFound pid i))"
  by (simp add: GetWeight_def entry_def split: option.splits)

lemma neighbours_entry:
  "neighbours g (m a) b = (case entry m a b of None \<Rightarrow> None | Some _ \<Rightarrow> Some (nodeList g b))"
  by (simp add: neighbours_def entry_def split: option.splits)

lemma three_nodes_simps:
  "nodeList three_nodes =
     [nid ''node1'' \<mapsto> NewNode (nid ''node1''),
      nid ''node2'' \<mapsto> NewNode (nid ''node2''),
      nid ''node3'' \<mapsto> NewNode (nid ''node3'')]"
  "nodeSources three_nodes = Map.empty"
  "nodeTargets three_nodes = Map.empty"
  by (simp_all add: three_nodes_def AddNode_def NewGraph_def unsafeIdExist_def GetId_def
      NewNode_def NewNID_def)

section \<open>Which neighbour map an edge shows up in\<close>

text \<open>
  C1, as the specification has it: after \<^verbatim>\<open>AddEdge(u, v, w)\<close> without error,
  \<^verbatim>\<open>GetTargets(u)\<close> has the key \<open>v\<close> and \<^verbatim>\<open>GetSources(v)\<close> has the key \<open>u\<close>. The code
  records the edge the other way round: its second parameter is \<^verbatim>\<open>pid\<close>, the upstream
  node, and \<^verbatim>\<open>AddEdge(id, pid, w)\<close> writes \<^verbatim>\<open>nodeSources[id][pid]\<close> and
  \<^verbatim>\<open>nodeTargets[pid][id]\<close>. With the three nodes of the test and one call
  \<^verbatim>\<open>AddEdge(node1, node2, 12)\<close>, both calls succeed and neither map has the key.
\<close>

theorem AddEdge_first_argument_is_source_counterexample:
  "unsafeIdExist three_nodes (NewNID ''node1'') \<and>
   unsafeIdExist three_nodes (NewNID ''node2'') \<and>
   fst (AddEdge (NewNID ''node1'') (NewNID ''node2'') 12 three_nodes) = None \<and>
   \<not> isl (GetTargets (NewNID ''node1'')
            (snd (AddEdge (NewNID ''node1'') (NewNID ''node2'') 12 three_nodes))) \<and>
   projr (GetTargets (NewNID ''node1'')
            (snd (AddEdge (NewNID ''node1'') (NewNID ''node2'') 12 three_nodes)))
     (NewNID ''node2'') = None \<and>
   \<not> isl (GetSources (NewNID ''node2'')
            (snd (AddEdge (NewNID ''node1'') (NewNID ''node2'') 12 three_nodes))) \<and>
   projr (GetSources (NewNID ''node2'')
            (snd (AddEdge (NewNID ''node1'') (NewNID ''node2'') 12 three_nodes)))
     (NewNID ''node1'') = None"
  by (simp add: AddEdge_def GetTargets_def GetSources_def unsafeIdExist_iff three_nodes_simps
      NewNID_def neighbours_entry entry_add_entry) (simp add: entry_def)

text \<open>
  C1, amended: after \<^verbatim>\<open>AddEdge(u, v, w)\<close> without error (which needs both nodes in the
  store), \<^verbatim>\<open>GetSources(u)\<close> returns a map with the key \<open>v\<close> and \<^verbatim>\<open>GetTargets(v)\<close> returns a
  map with the key \<open>u\<close>: the first argument is the node the edge points at, the second
  the node it comes from.
\<close>

theorem AddEdge_neighbours:
  assumes "fst (AddEdge u v w g) = None"
  shows "\<exists>s t. GetSources u (snd (AddEdge u v w g)) = Inr s \<and> v \<in> dom s \<and>
               GetTargets v (snd (AddEdge u v w g)) = Inr t \<and> u \<in> dom t"
proof -
  from assms have "unsafeIdExist g u" "unsafeIdExist g v"
    by (auto simp: AddEdge_def split: if_splits)
  then show ?thesis
    by (simp add: AddEdge_def GetSources_def GetTargets_def unsafeIdExist_iff neighbours_entry
        entry_add_entry dom_def)
qed

theorem AddEdge_neighbours_witness:
  "fst (AddEdge (NewNID ''node1'') (NewNID ''node2'') 12 three_nodes) = None \<and>
   (\<exists>s t. GetSources (NewNID ''node1'')
             (snd (AddEdge (NewNID ''node1'') (NewNID ''node2'') 12 three_nodes)) = Inr s \<and>
      NewNID ''node2'' \<in> dom s \<and>
      GetTargets (NewNID ''node2'')
        (snd (AddEdge (NewNID ''node1'') (NewNID ''node2'') 12 three_nodes)) = Inr t \<and>
      NewNID ''node1'' \<in> dom t)"
proof -
  have h: "fst (AddEdge (NewNID ''node1'') (NewNID ''node2'') 12 three_nodes) = None"
    by (simp add: AddEdge_def unsafeIdExist_iff three_nodes_simps NewNID_def)
  from h AddEdge_neighbours [OF h] show ?thesis by blast
qed

section \<open>Accumulating and replacing a weight\<close>

lemma AddEdges_Cons_ok:
  "fst (AddEdge u v w g) = None \<Longrightarrow>
   AddEdges u v (w # ws) g = AddEdges u v ws (snd (AddEdge u v w g))"
  by (cases "AddEdge u v w g") auto

lemma AddEdges_entry:
  "unsafeIdExist g u \<Longrightarrow> unsafeIdExist g v \<Longrightarrow> entry (nodeSources g) u v = Some w0 \<Longrightarrow>
   fst (AddEdges u v ws g) = None \<and>
   nodeList (snd (AddEdges u v ws g)) = nodeList g \<and>
   entry (nodeSources (snd (AddEdges u v ws g))) u v = Some (foldl (+) w0 ws)"
proof (induction ws arbitrary: g w0)
  case Nil
  then show ?case by simp
next
  case (Cons w ws)
  let ?g = "snd (AddEdge u v w g)"
  have a: "AddEdges u v (w # ws) g = AddEdges u v ws ?g"
    using Cons.prems by (intro AddEdges_Cons_ok) (simp add: AddEdge_def)
  have "unsafeIdExist ?g u" "unsafeIdExist ?g v" "nodeList ?g = nodeList g"
       "entry (nodeSources ?g) u v = Some (w0 + w)"
    using Cons.prems by (simp_all add: AddEdge_def unsafeIdExist_iff entry_add_entry)
  from Cons.IH [OF this(1,2,4)] this(3) a show ?case
    by (simp del: AddEdges.simps)
qed

text \<open>
  C2: let \<open>u\<close> and \<open>v\<close> be in the store (\<open>u = v\<close> allowed) with no edge recorded for the
  pair, which is what the answer \<^verbatim>\<open>"there is no edge from v to u"\<close> of \<^verbatim>\<open>GetWeight(u, v)\<close>
  says. Then the calls \<^verbatim>\<open>AddEdge(u, v, w1)\<close>, ..., \<^verbatim>\<open>AddEdge(u, v, wk)\<close> all succeed and
  \<^verbatim>\<open>GetWeight(u, v)\<close> returns the sum \<open>w1 + ... + wk\<close>, added up from the left in the
  addition of the weight type as the code does; after a \<^verbatim>\<open>ReplaceEdge(u, v, w)\<close>, which
  succeeds too, \<^verbatim>\<open>GetWeight(u, v)\<close> returns \<open>w\<close>.
\<close>

theorem AddEdge_accumulates_ReplaceEdge_overwrites:
  assumes "GetWeight u v g = Inl (EdgeNotFound v u)"
  shows "fst (AddEdges u v (w1 # ws) g) = None \<and>
         GetWeight u v (snd (AddEdges u v (w1 # ws) g)) = Inr (foldl (+) w1 ws) \<and>
         fst (ReplaceEdge u v w (snd (AddEdges u v (w1 # ws) g))) = None \<and>
         GetWeight u v (snd (ReplaceEdge u v w (snd (AddEdges u v (w1 # ws) g)))) = Inr w"
proof -
  from assms have ex: "unsafeIdExist g u" "unsafeIdExist g v"
    and no: "entry (nodeSources g) u v = None"
    by (auto simp: GetWeight_entry split: if_splits option.splits)
  let ?g1 = "snd (AddEdge u v w1 g)"
  have a: "AddEdges u v (w1 # ws) g = AddEdges u v ws ?g1"
    using ex by (intro AddEdges_Cons_ok) (simp add: AddEdge_def)
  have g1: "unsafeIdExist ?g1 u" "unsafeIdExist ?g1 v" "entry (nodeSources ?g1) u v = Some w1"
    using ex no by (simp_all add: AddEdge_def unsafeIdExist_iff entry_add_entry)
  let ?gk = "snd (AddEdges u v (w1 # ws) g)"
  have k: "fst (AddEdges u v (w1 # ws) g) = None" "nodeList ?gk = nodeList ?g1"
    "entry (nodeSources ?gk) u v = Some (foldl (+) w1 ws)"
    using AddEdges_entry [OF g1, of ws] a by (simp_all del: AddEdges.simps)
  have exk: "unsafeIdExist ?gk u" "unsafeIdExist ?gk v"
    using g1(1,2) k(2) by (simp_all add: unsafeIdExist_iff)
  show ?thesis
    using k(1,3) exk
    by (simp add: GetWeight_entry ReplaceEdge_def unsafeIdExist_iff entry_replace_entry
        del: AddEdges.simps)
qed

theorem AddEdge_accumulates_ReplaceEdge_overwrites_witness:
  "GetWeight (NewNID ''node1'') (NewNID ''node2'') three_nodes
     = Inl (EdgeNotFound (NewNID ''node2'') (NewNID ''node1'')) \<and>
   fst (AddEdges (NewNID ''node1'') (NewNID ''node2'') [12, 1] three_nodes) = None \<and>
   GetWeight (NewNID ''node1'') (NewNID ''node2'')
     (snd (AddEdges (NewNID ''node1'') (NewNID ''node2'') [12, 1] three_nodes)) = Inr 13 \<and>
   GetWeight (NewNID ''node1'') (NewNID ''node2'')
     (snd (ReplaceEdge (NewNID ''node1'') (NewNID ''node2'') 5
       (snd (AddEdges (NewNID ''node1'') (NewNID ''node2'') [12, 1] three_nodes)))) = Inr 5 \<and>
   GetWeight (NewNID ''node3'') (NewNID ''node3'') three_nodes
     = Inl (EdgeNotFound (NewNID ''node3'') (NewNID ''node3'')) \<and>
   GetWeight (NewNID ''node3'') (NewNID ''node3'')
     (snd (AddEdges (NewNID ''node3'') (NewNID ''node3'') [2, 3, 4] three_nodes)) = Inr 9"
proof -
  have h: "GetWeight (NewNID ''node1'') (NewNID ''node2'') three_nodes
             = Inl (EdgeNotFound (NewNID ''node2'') (NewNID ''node1''))"
    by (simp add: GetWeight_entry unsafeIdExist_iff three_nodes_simps NewNID_def entry_def)
  have l: "GetWeight (NewNID ''node3'') (NewNID ''node3'') three_nodes
             = Inl (EdgeNotFound (NewNID ''node3'') (NewNID ''node3''))"
    by (simp add: GetWeight_entry unsafeIdExist_iff three_nodes_simps NewNID_def entry_def)
  from h l
    AddEdge_accumulates_ReplaceEdge_overwrites [OF h, of 12 "[1]" 5]
    AddEdge_accumulates_ReplaceEdge_overwrites [OF l, of 2 "[3, 4]" 0]
  show ?thesis
    by (simp del: AddEdges.simps)
qed

section \<open>The states a client can reach\<close>

lemma nodeList_AddNode:
  "nodeList (snd (AddNode nd g)) =
     (if unsafeIdExist g (GetId nd) then nodeList g else (nodeList g)(GetId nd \<mapsto> nd))"
  by (simp add: AddNode_def)

lemma nodeList_DeleteNode: "nodeList (snd (DeleteNode i g)) = (nodeList g)(i := None)"
  by (auto simp: DeleteNode_def unsafeIdExist_iff)

lemma nodeList_edge_ops:
  "nodeList (snd (AddEdge i pid wgt g)) = nodeList g"
  "nodeList (snd (ReplaceEdge i pid wgt g)) = nodeList g"
  "nodeList (snd (DeleteEdge i pid g)) = nodeList g"
  by (simp_all add: AddEdge_def ReplaceEdge_def DeleteEdge_def)

text \<open>The node map of a reachable store is finite, as every Go map is.\<close>

lemma reachable_finite: "reachable g \<Longrightarrow> finite (dom (nodeList g))"
proof (induction g rule: reachable.induct)
  case reach_NewGraph
  show ?case by (simp add: NewGraph_def)
next
  case (reach_Init g)
  show ?case by (simp add: Init_def)
next
  case (reach_AddNode g nd)
  have "finite (dom ((nodeList g)(GetId nd \<mapsto> nd)))"
    using reach_AddNode.IH by simp
  with reach_AddNode.IH show ?case by (simp add: nodeList_AddNode del: dom_fun_upd)
next
  case (reach_DeleteNode g i)
  have "finite (dom ((nodeList g)(i := None)))"
    using reach_DeleteNode.IH by simp
  then show ?case by (simp only: nodeList_DeleteNode)
next
  case (reach_AddEdge g i pid wgt)
  then show ?case by (simp only: nodeList_edge_ops)
next
  case (reach_ReplaceEdge g i pid wgt)
  then show ?case by (simp only: nodeList_edge_ops)
next
  case (reach_DeleteEdge g i pid)
  then show ?case by (simp only: nodeList_edge_ops)
qed

lemma reachable_mirror:
  "reachable g \<Longrightarrow> entry (nodeTargets g) a b = entry (nodeSources g) b a"
proof (induction g arbitrary: a b rule: reachable.induct)
  case reach_NewGraph
  show ?case by (simp add: NewGraph_def entry_def)
next
  case (reach_Init g)
  show ?case by (simp add: Init_def entry_def)
next
  case (reach_AddNode g nd)
  then show ?case by (simp add: AddNode_def)
next
  case (reach_DeleteNode g i)
  then show ?case by (auto simp: DeleteNode_def entry_delete_in_all)
next
  case (reach_AddEdge g i pid wgt)
  then show ?case by (auto simp: AddEdge_def entry_add_entry)
next
  case (reach_ReplaceEdge g i pid wgt)
  then show ?case by (auto simp: ReplaceEdge_def entry_replace_entry)
next
  case (reach_DeleteEdge g i pid)
  then show ?case by (auto simp: DeleteEdge_def entry_delete_entry)
qed

lemma reachable_keys:
  "reachable g \<Longrightarrow>
     (\<forall>a inner. nodeSources g a = Some inner \<longrightarrow>
        nodeList g a \<noteq> None \<and> (\<forall>b. inner b \<noteq> None \<longrightarrow> nodeList g b \<noteq> None)) \<and>
     (\<forall>a inner. nodeTargets g a = Some inner \<longrightarrow>
        nodeList g a \<noteq> None \<and> (\<forall>b. inner b \<noteq> None \<longrightarrow> nodeList g b \<noteq> None))"
proof (induction g rule: reachable.induct)
  case reach_NewGraph
  show ?case by (simp add: NewGraph_def)
next
  case (reach_Init g)
  show ?case by (simp add: Init_def)
next
  case (reach_AddNode g nd)
  then show ?case unfolding AddNode_def by auto
next
  case (reach_DeleteNode g i)
  then show ?case unfolding DeleteNode_def
    by (auto simp: delete_in_all_def split: option.splits if_splits)
next
  case (reach_AddEdge g i pid wgt)
  then show ?case unfolding AddEdge_def
    by (auto simp: add_entry_def unsafeIdExist_iff split: option.splits if_splits)
next
  case (reach_ReplaceEdge g i pid wgt)
  then show ?case unfolding ReplaceEdge_def
    by (auto simp: replace_entry_def unsafeIdExist_iff split: option.splits if_splits)
next
  case (reach_DeleteEdge g i pid)
  then show ?case unfolding DeleteEdge_def
    by (auto simp: delete_entry_def unsafeIdExist_iff split: option.splits if_splits)
qed

lemma reachable_three_nodes: "reachable three_nodes"
  unfolding three_nodes_def by (intro reach_AddNode reach_NewGraph)

lemma reachable_two_edges: "reachable two_edges"
  unfolding two_edges_def by (intro reach_AddEdge reachable_three_nodes)

lemma two_edges_entries:
  "entry (nodeSources two_edges) a b =
     (if a = nid ''node1'' \<and> b = nid ''node3'' then Some 10
      else if a = nid ''node1'' \<and> b = nid ''node2'' then Some 12 else None)"
  "entry (nodeTargets two_edges) a b =
     (if a = nid ''node3'' \<and> b = nid ''node1'' then Some 10
      else if a = nid ''node2'' \<and> b = nid ''node1'' then Some 12 else None)"
  "nodeList two_edges = nodeList three_nodes"
  by (simp_all add: two_edges_def AddEdge_def unsafeIdExist_iff three_nodes_simps NewNID_def
      entry_add_entry) (simp_all add: entry_def)

section \<open>The two indices mirror each other\<close>

text \<open>
  C3: in every store a client can reach, that is after every public operation, the
  two indices are mirror images: \<^verbatim>\<open>nodeTargets[a][b]\<close> holds the weight \<open>w\<close> if and only
  if \<^verbatim>\<open>nodeSources[b][a]\<close> holds \<open>w\<close>, and the one has no entry there if and only if the
  other has none. (\<^verbatim>\<open>GetNodes\<close> hands out the node map itself; what a client does to it
  behind the store's back is no public operation.)
\<close>

theorem indices_mirror:
  assumes "reachable g"
  shows "(entry (nodeTargets g) a b = Some w \<longleftrightarrow> entry (nodeSources g) b a = Some w) \<and>
         (entry (nodeTargets g) a b = None \<longleftrightarrow> entry (nodeSources g) b a = None)"
  using reachable_mirror [OF assms, of a b] by simp

theorem indices_mirror_witness:
  "reachable two_edges \<and>
   entry (nodeTargets two_edges) (NewNID ''node2'') (NewNID ''node1'') = Some 12 \<and>
   entry (nodeSources two_edges) (NewNID ''node1'') (NewNID ''node2'') = Some 12 \<and>
   entry (nodeTargets two_edges) (NewNID ''node1'') (NewNID ''node2'') = None \<and>
   entry (nodeSources two_edges) (NewNID ''node2'') (NewNID ''node1'') = None"
  using indices_mirror [OF reachable_two_edges, of "NewNID ''node2''" "NewNID ''node1''" 12]
        indices_mirror [OF reachable_two_edges, of "NewNID ''node1''" "NewNID ''node2''" 12]
  by (simp add: reachable_two_edges two_edges_entries NewNID_def)

section \<open>Every key of an index is a node\<close>

text \<open>
  C4: in every store a client can reach, an outer key and an inner key of either index
  is a key of the node map. And whenever \<^verbatim>\<open>DeleteNode(i)\<close> returns true, in the store
  it leaves \<open>i\<close> is no key of \<^verbatim>\<open>GetNodes()\<close>, no key of any map that \<^verbatim>\<open>GetSources\<close> or
  \<^verbatim>\<open>GetTargets\<close> returns, and \<^verbatim>\<open>GetWeight\<close> with \<open>i\<close> as either argument fails with the
  node-not-found error: for \<open>i\<close> when \<open>i\<close> comes first or the other node exists, for the
  other node when that comes first and is missing too.
\<close>

theorem index_keys_are_nodes:
  "(reachable g \<longrightarrow>
      (\<forall>a inner b.
         (nodeSources g a = Some inner \<longrightarrow>
            a \<in> dom (nodeList g) \<and> (b \<in> dom inner \<longrightarrow> b \<in> dom (nodeList g))) \<and>
         (nodeTargets g a = Some inner \<longrightarrow>
            a \<in> dom (nodeList g) \<and> (b \<in> dom inner \<longrightarrow> b \<in> dom (nodeList g))))) \<and>
   (fst (DeleteNode i g) \<longrightarrow>
      i \<notin> dom (GetNodes (snd (DeleteNode i g))) \<and>
      (\<forall>x s. GetSources x (snd (DeleteNode i g)) = Inr s \<longrightarrow> i \<notin> dom s) \<and>
      (\<forall>x t. GetTargets x (snd (DeleteNode i g)) = Inr t \<longrightarrow> i \<notin> dom t) \<and>
      (\<forall>x. GetWeight i x (snd (DeleteNode i g)) = Inl (NodeNotFound i)) \<and>
      (\<forall>x. GetWeight x i (snd (DeleteNode i g)) =
              Inl (NodeNotFound (if unsafeIdExist (snd (DeleteNode i g)) x then i else x))))"
proof (intro conjI impI)
  assume "reachable g"
  from reachable_keys [OF this]
  show "\<forall>a inner b.
          (nodeSources g a = Some inner \<longrightarrow>
             a \<in> dom (nodeList g) \<and> (b \<in> dom inner \<longrightarrow> b \<in> dom (nodeList g))) \<and>
          (nodeTargets g a = Some inner \<longrightarrow>
             a \<in> dom (nodeList g) \<and> (b \<in> dom inner \<longrightarrow> b \<in> dom (nodeList g)))"
    unfolding dom_def by blast
next
  assume d: "fst (DeleteNode i g)"
  let ?g = "snd (DeleteNode i g)"
  from d have ex: "unsafeIdExist g i"
    by (auto simp: DeleteNode_def split: if_splits)
  have nl: "nodeList ?g = (nodeList g)(i := None)"
    and ns: "nodeSources ?g = delete_in_all i ((nodeSources g)(i := None))"
    and nt: "nodeTargets ?g = delete_in_all i ((nodeTargets g)(i := None))"
    using ex by (simp_all add: DeleteNode_def)
  show "i \<notin> dom (GetNodes ?g)"
    by (simp add: GetNodes_def nl)
  show "\<forall>x s. GetSources x ?g = Inr s \<longrightarrow> i \<notin> dom s"
    by (auto simp: GetSources_def ns neighbours_entry entry_delete_in_all dom_def
        split: if_splits)
  show "\<forall>x t. GetTargets x ?g = Inr t \<longrightarrow> i \<notin> dom t"
    by (auto simp: GetTargets_def nt neighbours_entry entry_delete_in_all dom_def
        split: if_splits)
  show "\<forall>x. GetWeight i x ?g = Inl (NodeNotFound i)"
    by (simp add: GetWeight_entry unsafeIdExist_iff nl)
  show "\<forall>x. GetWeight x i ?g = Inl (NodeNotFound (if unsafeIdExist ?g x then i else x))"
    by (simp add: GetWeight_entry unsafeIdExist_iff nl)
qed

theorem index_keys_are_nodes_witness:
  "reachable two_edges \<and>
   nodeSources two_edges (NewNID ''node1'')
     = Some [NewNID ''node2'' \<mapsto> 12, NewNID ''node3'' \<mapsto> 10] \<and>
   NewNID ''node1'' \<in> dom (nodeList two_edges) \<and>
   NewNID ''node3'' \<in> dom (nodeList two_edges) \<and>
   fst (DeleteNode (NewNID ''node3'') two_edges) \<and>
   NewNID ''node3'' \<notin> dom (GetNodes (snd (DeleteNode (NewNID ''node3'') two_edges))) \<and>
   \<not> isl (GetSources (NewNID ''node1'') (snd (DeleteNode (NewNID ''node3'') two_edges))) \<and>
   NewNID ''node3'' \<notin>
     dom (projr (GetSources (NewNID ''node1'') (snd (DeleteNode (NewNID ''node3'') two_edges)))) \<and>
   GetWeight (NewNID ''node1'') (NewNID ''node3'') (snd (DeleteNode (NewNID ''node3'') two_edges))
     = Inl (NodeNotFound (NewNID ''node3''))"
proof -
  have s: "nodeSources two_edges (NewNID ''node1'')
             = Some [NewNID ''node2'' \<mapsto> 12, NewNID ''node3'' \<mapsto> 10]"
    by (simp add: two_edges_def AddEdge_def unsafeIdExist_iff three_nodes_simps NewNID_def
        add_entry_def)
  have d: "fst (DeleteNode (NewNID ''node3'') two_edges)"
    by (simp add: DeleteNode_def unsafeIdExist_iff two_edges_entries three_nodes_simps NewNID_def)
  have e: "unsafeIdExist (snd (DeleteNode (NewNID ''node3'') two_edges)) (NewNID ''node1'')"
    by (simp add: DeleteNode_def unsafeIdExist_iff two_edges_entries three_nodes_simps NewNID_def)
  have q: "\<not> isl (GetSources (NewNID ''node1'') (snd (DeleteNode (NewNID ''node3'') two_edges)))"
    using e by (simp add: GetSources_def)
  then obtain sm where
    sm: "GetSources (NewNID ''node1'') (snd (DeleteNode (NewNID ''node3'') two_edges)) = Inr sm"
    by (cases "GetSources (NewNID ''node1'') (snd (DeleteNode (NewNID ''node3'') two_edges))") auto
  from index_keys_are_nodes [of two_edges "NewNID ''node3''"] reachable_two_edges s d e q sm
  show ?thesis by (auto simp del: fun_upd_apply)
qed

section \<open>Serialising the graph\<close>

text \<open>
  C5 asks of \<^verbatim>\<open>JSON\<close> one entry for every node with a neighbour, its inner map keyed by
  each neighbour's string. The source writes the first neighbour it visits under the
  neighbour's string (\<^verbatim>\<open>map[string]float64{pid.String(): wgt}\<close>) and every later one
  under the node's own string (\<^verbatim>\<open>rs[id.String()][id.String()] = wgt\<close>). In the store with
  \<^verbatim>\<open>AddEdge(node1, node2, 12)\<close> and \<^verbatim>\<open>AddEdge(node1, node3, 10)\<close>, where \<^verbatim>\<open>GetWeight\<close>
  knows the weights 12 and 10 and no edge for the pair (node1, node1), the entry of
  node1 has the key node1 and lacks node3 or node2, whichever the loop visits second.
  The lists given for the two loops are the keys the source ranges over.
\<close>

theorem JSON_later_neighbours_keyed_by_self:
  "set [NewNID ''node1'', NewNID ''node2'', NewNID ''node3''] = dom (nodeList two_edges) \<and>
   \<not> isl (GetSources (NewNID ''node1'') two_edges) \<and>
   set [NewNID ''node2'', NewNID ''node3'']
     = dom (projr (GetSources (NewNID ''node1'') two_edges)) \<and>
   dom (projr (GetSources (NewNID ''node2'') two_edges)) = set [] \<and>
   dom (projr (GetSources (NewNID ''node3'') two_edges)) = set [] \<and>
   GetWeight (NewNID ''node1'') (NewNID ''node2'') two_edges = Inr 12 \<and>
   GetWeight (NewNID ''node1'') (NewNID ''node3'') two_edges = Inr 10 \<and>
   GetWeight (NewNID ''node1'') (NewNID ''node1'') two_edges
     = Inl (EdgeNotFound (NewNID ''node1'') (NewNID ''node1'')) \<and>
   map_option (\<lambda>inner. (inner ''node1'', inner ''node2'', inner ''node3''))
     (JSON [NewNID ''node1'', NewNID ''node2'', NewNID ''node3'']
        (\<lambda>i. if i = NewNID ''node1'' then [NewNID ''node2'', NewNID ''node3''] else [])
        two_edges ''node1'')
     = Some (Some 10, Some 12, None) \<and>
   map_option (\<lambda>inner. (inner ''node1'', inner ''node2'', inner ''node3''))
     (JSON [NewNID ''node1'', NewNID ''node2'', NewNID ''node3'']
        (\<lambda>i. if i = NewNID ''node1'' then [NewNID ''node3'', NewNID ''node2''] else [])
        two_edges ''node1'')
     = Some (Some 12, None, Some 10)"
proof -
  have ids: "set [NewNID ''node1'', NewNID ''node2'', NewNID ''node3'']
               = dom (nodeList two_edges)"
    by (simp add: two_edges_entries three_nodes_simps NewNID_def insert_commute)
  have pids: "\<not> isl (GetSources (NewNID ''node1'') two_edges) \<and>
      set [NewNID ''node2'', NewNID ''node3'']
        = dom (projr (GetSources (NewNID ''node1'') two_edges))"
    by (auto simp: GetSources_def unsafeIdExist_iff two_edges_entries three_nodes_simps
        NewNID_def neighbours_entry dom_def split: if_splits)
  have none: "dom (projr (GetSources (NewNID ''node2'') two_edges)) = set [] \<and>
      dom (projr (GetSources (NewNID ''node3'') two_edges)) = set []"
    by (auto simp: GetSources_def unsafeIdExist_iff two_edges_entries three_nodes_simps
        NewNID_def neighbours_entry dom_def split: if_splits)
  have out: "GetWeight (NewNID ''node1'') (NewNID ''node2'') two_edges = Inr 12 \<and>
      GetWeight (NewNID ''node1'') (NewNID ''node3'') two_edges = Inr 10 \<and>
      GetWeight (NewNID ''node1'') (NewNID ''node1'') two_edges
        = Inl (EdgeNotFound (NewNID ''node1'') (NewNID ''node1'')) \<and>
      map_option (\<lambda>inner. (inner ''node1'', inner ''node2'', inner ''node3''))
        (JSON [NewNID ''node1'', NewNID ''node2'', NewNID ''node3'']
           (\<lambda>i. if i = NewNID ''node1'' then [NewNID ''node2'', NewNID ''node3''] else [])
           two_edges ''node1'')
        = Some (Some 10, Some 12, None) \<and>
      map_option (\<lambda>inner. (inner ''node1'', inner ''node2'', inner ''node3''))
        (JSON [NewNID ''node1'', NewNID ''node2'', NewNID ''node3'']
           (\<lambda>i. if i = NewNID ''node1'' then [NewNID ''node3'', NewNID ''node2''] else [])
           two_edges ''node1'')
        = Some (Some 12, None, Some 10)"
    by (simp add: JSON_def JSON_step_def GetSources_def GetWeight_entry unsafeIdExist_iff
        two_edges_entries three_nodes_simps NewNID_def)
  from ids pids none out show ?thesis by blast
qed

section \<open>The errors of GetWeight\<close>

text \<open>
  C6: \<^verbatim>\<open>GetWeight(i, pid)\<close> fails with the node-not-found error for \<open>i\<close> when \<open>i\<close> is
  missing, whatever \<open>pid\<close> is, and for \<open>pid\<close> when only \<open>pid\<close> is missing; it fails with
  the no-edge error exactly when both nodes exist and no weight is recorded for the
  pair; it returns the recorded weight otherwise. No other operation that returns an
  error (\<^verbatim>\<open>AddEdge\<close>, \<^verbatim>\<open>ReplaceEdge\<close>, \<^verbatim>\<open>DeleteEdge\<close>, \<^verbatim>\<open>GetSources\<close>, \<^verbatim>\<open>GetTargets\<close>)
  returns the no-edge error.
\<close>

theorem GetWeight_errors:
  "(\<not> unsafeIdExist g i \<longrightarrow> GetWeight i pid g = Inl (NodeNotFound i)) \<and>
   (unsafeIdExist g i \<and> \<not> unsafeIdExist g pid \<longrightarrow>
      GetWeight i pid g = Inl (NodeNotFound pid)) \<and>
   ((\<exists>p q. GetWeight i pid g = Inl (EdgeNotFound p q)) \<longleftrightarrow>
      unsafeIdExist g i \<and> unsafeIdExist g pid \<and> entry (nodeSources g) i pid = None) \<and>
   (unsafeIdExist g i \<and> unsafeIdExist g pid \<and> entry (nodeSources g) i pid = Some w \<longrightarrow>
      GetWeight i pid g = Inr w) \<and>
   fst (AddEdge a b x g) \<noteq> Some (EdgeNotFound p' q') \<and>
   fst (ReplaceEdge a b x g) \<noteq> Some (EdgeNotFound p' q') \<and>
   fst (DeleteEdge a b g) \<noteq> Some (EdgeNotFound p' q') \<and>
   GetSources a g \<noteq> Inl (EdgeNotFound p' q') \<and>
   GetTargets a g \<noteq> Inl (EdgeNotFound p' q')"
  by (simp add: GetWeight_entry AddEdge_def ReplaceEdge_def DeleteEdge_def GetSources_def
      GetTargets_def split: option.splits)

theorem GetWeight_errors_witness:
  "\<not> unsafeIdExist two_edges (NewNID ''node4'') \<and>
   GetWeight (NewNID ''node4'') (NewNID ''node5'') two_edges
     = Inl (NodeNotFound (NewNID ''node4'')) \<and>
   unsafeIdExist two_edges (NewNID ''node1'') \<and>
   GetWeight (NewNID ''node1'') (NewNID ''node4'') two_edges
     = Inl (NodeNotFound (NewNID ''node4'')) \<and>
   unsafeIdExist two_edges (NewNID ''node2'') \<and>
   entry (nodeSources two_edges) (NewNID ''node2'') (NewNID ''node1'') = None \<and>
   GetWeight (NewNID ''node2'') (NewNID ''node1'') two_edges
     = Inl (EdgeNotFound (NewNID ''node1'') (NewNID ''node2'')) \<and>
   entry (nodeSources two_edges) (NewNID ''node1'') (NewNID ''node2'') = Some 12 \<and>
   GetWeight (NewNID ''node1'') (NewNID ''node2'') two_edges = Inr 12"
proof -
  have h: "\<not> unsafeIdExist two_edges (NewNID ''node4'')"
    "unsafeIdExist two_edges (NewNID ''node1'')"
    "unsafeIdExist two_edges (NewNID ''node2'')"
    "entry (nodeSources two_edges) (NewNID ''node2'') (NewNID ''node1'') = None"
    "entry (nodeSources two_edges) (NewNID ''node1'') (NewNID ''node2'') = Some 12"
    by (simp_all add: unsafeIdExist_iff two_edges_entries three_nodes_simps NewNID_def)
  have e: "GetWeight (NewNID ''node2'') (NewNID ''node1'') two_edges
             = Inl (EdgeNotFound (NewNID ''node1'') (NewNID ''node2''))"
    using h by (simp add: GetWeight_entry)
  from h e
    GetWeight_errors [of two_edges "NewNID ''node4''" "NewNID ''node5''"]
    GetWeight_errors [of two_edges "NewNID ''node1''" "NewNID ''node4''"]
    GetWeight_errors [of two_edges "NewNID ''node1''" "NewNID ''node2''" 12]
  show ?thesis by simp
qed

section \<open>Adding a node twice\<close>

text \<open>
  C7: when a node with the identity of \<open>nd\<close> is in the store, \<^verbatim>\<open>AddNode(nd)\<close> returns
  false and the store is the one it was (the method returns a \<^verbatim>\<open>bool\<close>, it has no error
  to raise); otherwise it returns true, the node map gains \<open>nd\<close> under its identity,
  both indices stay as they were and \<^verbatim>\<open>GetNodeCount()\<close> grows by one. The node map is
  finite, as a Go map is.
\<close>

theorem AddNode_duplicate_rejected:
  assumes "finite (dom (nodeList g))"
  shows "(unsafeIdExist g (GetId nd) \<longrightarrow> AddNode nd g = (False, g)) \<and>
         (\<not> unsafeIdExist g (GetId nd) \<longrightarrow>
            fst (AddNode nd g) \<and>
            nodeList (snd (AddNode nd g)) = (nodeList g)(GetId nd \<mapsto> nd) \<and>
            GetNode (GetId nd) (snd (AddNode nd g)) = Some nd \<and>
            nodeSources (snd (AddNode nd g)) = nodeSources g \<and>
            nodeTargets (snd (AddNode nd g)) = nodeTargets g \<and>
            GetNodeCount (snd (AddNode nd g)) = GetNodeCount g + 1)"
proof (intro conjI impI)
  assume "unsafeIdExist g (GetId nd)"
  then show "AddNode nd g = (False, g)"
    by (simp add: AddNode_def)
next
  assume n: "\<not> unsafeIdExist g (GetId nd)"
  then have g': "snd (AddNode nd g) = g\<lparr>nodeList := (nodeList g)(GetId nd \<mapsto> nd)\<rparr>"
    and r: "fst (AddNode nd g)"
    by (simp_all add: AddNode_def)
  show "fst (AddNode nd g)" by (rule r)
  show "nodeList (snd (AddNode nd g)) = (nodeList g)(GetId nd \<mapsto> nd)" by (simp add: g')
  show "GetNode (GetId nd) (snd (AddNode nd g)) = Some nd" by (simp add: g' GetNode_def)
  show "nodeSources (snd (AddNode nd g)) = nodeSources g" by (simp add: g')
  show "nodeTargets (snd (AddNode nd g)) = nodeTargets g" by (simp add: g')
  from n have "GetId nd \<notin> dom (nodeList g)"
    by (simp add: unsafeIdExist_iff dom_def)
  with assms show "GetNodeCount (snd (AddNode nd g)) = GetNodeCount g + 1"
    by (simp add: g' GetNodeCount_def)
qed

theorem AddNode_duplicate_rejected_witness:
  "finite (dom (nodeList three_nodes)) \<and>
   \<not> unsafeIdExist three_nodes (GetId (NewNode (NewNID ''node4''))) \<and>
   fst (AddNode (NewNode (NewNID ''node4'')) three_nodes) \<and>
   GetNodeCount three_nodes = 3 \<and>
   GetNodeCount (snd (AddNode (NewNode (NewNID ''node4'')) three_nodes)) = 4 \<and>
   AddNode \<lparr>node_id = NewNID ''node1'', \<dots> = True\<rparr>
       (snd (AddNode \<lparr>node_id = NewNID ''node1'', \<dots> = False\<rparr> (NewGraph :: (bool, int) graph)))
     = (False, snd (AddNode \<lparr>node_id = NewNID ''node1'', \<dots> = False\<rparr> NewGraph)) \<and>
   GetNode (NewNID ''node1'')
       (snd (AddNode \<lparr>node_id = NewNID ''node1'', \<dots> = True\<rparr>
         (snd (AddNode \<lparr>node_id = NewNID ''node1'', \<dots> = False\<rparr>
           (NewGraph :: (bool, int) graph)))))
     = Some \<lparr>node_id = NewNID ''node1'', \<dots> = False\<rparr>"
proof -
  have f: "finite (dom (nodeList three_nodes))"
    by (simp add: three_nodes_simps)
  have c: "GetNodeCount three_nodes = 3"
    by (simp add: GetNodeCount_def three_nodes_simps)
  from f c AddNode_duplicate_rejected [OF f, of "NewNode (NewNID ''node4'')"]
  have fresh: "\<not> unsafeIdExist three_nodes (GetId (NewNode (NewNID ''node4''))) \<and>
      fst (AddNode (NewNode (NewNID ''node4'')) three_nodes) \<and>
      GetNodeCount three_nodes = 3 \<and>
      GetNodeCount (snd (AddNode (NewNode (NewNID ''node4'')) three_nodes)) = 4"
    by (simp add: unsafeIdExist_iff three_nodes_simps NewNID_def NewNode_def GetId_def)
  let ?g = "snd (AddNode \<lparr>node_id = NewNID ''node1'', \<dots> = False\<rparr>
                  (NewGraph :: (bool, int) graph))"
  have n: "nodeList ?g = [NewNID ''node1'' \<mapsto> \<lparr>node_id = NewNID ''node1'', \<dots> = False\<rparr>]"
    by (simp add: AddNode_def NewGraph_def unsafeIdExist_def GetId_def)
  have f': "finite (dom (nodeList ?g))"
    by (simp add: n)
  have u: "unsafeIdExist ?g (GetId \<lparr>node_id = NewNID ''node1'', \<dots> = True\<rparr>)"
    by (simp add: unsafeIdExist_iff n GetId_def)
  from n u AddNode_duplicate_rejected [OF f', of "\<lparr>node_id = NewNID ''node1'', \<dots> = True\<rparr>"]
  have dup: "AddNode \<lparr>node_id = NewNID ''node1'', \<dots> = True\<rparr> ?g = (False, ?g) \<and>
      GetNode (NewNID ''node1'') (snd (AddNode \<lparr>node_id = NewNID ''node1'', \<dots> = True\<rparr> ?g))
        = Some \<lparr>node_id = NewNID ''node1'', \<dots> = False\<rparr>"
    by (simp add: GetNode_def)
  from f fresh dup show ?thesis by blast
qed

section \<open>Deleting an edge that is not there\<close>

lemma delete_entry_absent: "entry m a b = None \<Longrightarrow> delete_entry m a b = m"
  by (simp add: entry_def delete_entry_def split: option.splits)

text \<open>
  C8: when both nodes are in the store and neither index has an entry for the pair,
  \<^verbatim>\<open>DeleteEdge\<close> returns \<^verbatim>\<open>nil\<close> and the store, node map and both indices, is the one it
  was. In a store a client can reach it is enough that \<^verbatim>\<open>GetWeight\<close> answers with the
  no-edge error.
\<close>

theorem DeleteEdge_absent_edge_noop:
  "(unsafeIdExist g i \<and> unsafeIdExist g pid \<and>
      entry (nodeSources g) i pid = None \<and> entry (nodeTargets g) pid i = None \<longrightarrow>
      DeleteEdge i pid g = (None, g)) \<and>
   (reachable g \<and> GetWeight i pid g = Inl (EdgeNotFound pid i) \<longrightarrow>
      DeleteEdge i pid g = (None, g))"
proof (intro conjI impI)
  assume "unsafeIdExist g i \<and> unsafeIdExist g pid \<and>
      entry (nodeSources g) i pid = None \<and> entry (nodeTargets g) pid i = None"
  then show "DeleteEdge i pid g = (None, g)"
    by (simp add: DeleteEdge_def delete_entry_absent)
next
  assume a: "reachable g \<and> GetWeight i pid g = Inl (EdgeNotFound pid i)"
  then have "unsafeIdExist g i" "unsafeIdExist g pid" "entry (nodeSources g) i pid = None"
    by (auto simp: GetWeight_entry split: if_splits option.splits)
  moreover from this(3) a have "entry (nodeTargets g) pid i = None"
    by (simp add: reachable_mirror)
  ultimately show "DeleteEdge i pid g = (None, g)"
    by (simp add: DeleteEdge_def delete_entry_absent)
qed

theorem DeleteEdge_absent_edge_noop_witness:
  "unsafeIdExist two_edges (NewNID ''node2'') \<and> unsafeIdExist two_edges (NewNID ''node3'') \<and>
   entry (nodeSources two_edges) (NewNID ''node2'') (NewNID ''node3'') = None \<and>
   entry (nodeTargets two_edges) (NewNID ''node3'') (NewNID ''node2'') = None \<and>
   reachable two_edges \<and>
   GetWeight (NewNID ''node2'') (NewNID ''node3'') two_edges
     = Inl (EdgeNotFound (NewNID ''node3'') (NewNID ''node2'')) \<and>
   DeleteEdge (NewNID ''node2'') (NewNID ''node3'') two_edges = (None, two_edges)"
  using DeleteEdge_absent_edge_noop [of two_edges "NewNID ''node2''" "NewNID ''node3''"]
    reachable_two_edges
  by (simp add: unsafeIdExist_iff two_edges_entries three_nodes_simps NewNID_def GetWeight_entry)

section \<open>Taking the lock\<close>

text \<open>
  C9 has every mutating method hold the write lock of the store from its first
  statement to its return. \<^verbatim>\<open>AddNode\<close>, \<^verbatim>\<open>DeleteNode\<close>, \<^verbatim>\<open>AddEdge\<close>, \<^verbatim>\<open>ReplaceEdge\<close> and
  \<^verbatim>\<open>DeleteEdge\<close> open with \<^verbatim>\<open>g.mu.Lock()\<close> and \<^verbatim>\<open>defer g.mu.Unlock()\<close>; \<^verbatim>\<open>Init\<close> replaces
  the three maps and never touches \<^verbatim>\<open>g.mu\<close>.
\<close>

theorem Init_makes_no_mu_call:
  "mu_calls M_Init = [] \<and>
   mu_calls M_AddNode = [Lock, Unlock] \<and>
   mu_calls M_DeleteNode = [Lock, Unlock] \<and>
   mu_calls M_AddEdge = [Lock, Unlock] \<and>
   mu_calls M_ReplaceEdge = [Lock, Unlock] \<and>
   mu_calls M_DeleteEdge = [Lock, Unlock]"
  by simp

section \<open>What an edge operation leaves alone\<close>

text \<open>
  C10: a call of \<^verbatim>\<open>AddEdge\<close>, \<^verbatim>\<open>ReplaceEdge\<close> or \<^verbatim>\<open>DeleteEdge\<close> for the pair \<open>(u, v)\<close> that
  returns no error leaves the node map as it was, and for every other pair \<open>(a, b)\<close>
  leaves what the two indices record for it, a weight or nothing, as it was. A pair
  \<open>(a, b)\<close> is recorded where a call for \<open>(a, b)\<close> writes it: at \<^verbatim>\<open>nodeSources[a][b]\<close> and,
  mirrored, at \<^verbatim>\<open>nodeTargets[b][a]\<close>.
\<close>

theorem edge_operations_frame:
  "(fst (AddEdge u v w g) = None \<longrightarrow>
      nodeList (snd (AddEdge u v w g)) = nodeList g \<and>
      (\<forall>a b. (a, b) \<noteq> (u, v) \<longrightarrow>
         entry (nodeSources (snd (AddEdge u v w g))) a b = entry (nodeSources g) a b \<and>
         entry (nodeTargets (snd (AddEdge u v w g))) b a = entry (nodeTargets g) b a)) \<and>
   (fst (ReplaceEdge u v w g) = None \<longrightarrow>
      nodeList (snd (ReplaceEdge u v w g)) = nodeList g \<and>
      (\<forall>a b. (a, b) \<noteq> (u, v) \<longrightarrow>
         entry (nodeSources (snd (ReplaceEdge u v w g))) a b = entry (nodeSources g) a b \<and>
         entry (nodeTargets (snd (ReplaceEdge u v w g))) b a = entry (nodeTargets g) b a)) \<and>
   (fst (DeleteEdge u v g) = None \<longrightarrow>
      nodeList (snd (DeleteEdge u v g)) = nodeList g \<and>
      (\<forall>a b. (a, b) \<noteq> (u, v) \<longrightarrow>
         entry (nodeSources (snd (DeleteEdge u v g))) a b = entry (nodeSources g) a b \<and>
         entry (nodeTargets (snd (DeleteEdge u v g))) b a = entry (nodeTargets g) b a))"
  by (auto simp: AddEdge_def ReplaceEdge_def DeleteEdge_def entry_add_entry entry_replace_entry
      entry_delete_entry split: if_splits)

theorem edge_operations_frame_witness:
  "fst (AddEdge (NewNID ''node1'') (NewNID ''node2'') 1 two_edges) = None \<and>
   fst (ReplaceEdge (NewNID ''node1'') (NewNID ''node2'') 1 two_edges) = None \<and>
   fst (DeleteEdge (NewNID ''node1'') (NewNID ''node2'') two_edges) = None \<and>
   (NewNID ''node1'', NewNID ''node3'') \<noteq> (NewNID ''node1'', NewNID ''node2'') \<and>
   entry (nodeSources (snd (AddEdge (NewNID ''node1'') (NewNID ''node2'') 1 two_edges)))
     (NewNID ''node1'') (NewNID ''node3'') = Some 10 \<and>
   entry (nodeTargets (snd (AddEdge (NewNID ''node1'') (NewNID ''node2'') 1 two_edges)))
     (NewNID ''node3'') (NewNID ''node1'') = Some 10 \<and>
   entry (nodeSources (snd (ReplaceEdge (NewNID ''node1'') (NewNID ''node2'') 1 two_edges)))
     (NewNID ''node1'') (NewNID ''node3'') = Some 10 \<and>
   entry (nodeTargets (snd (ReplaceEdge (NewNID ''node1'') (NewNID ''node2'') 1 two_edges)))
     (NewNID ''node3'') (NewNID ''node1'') = Some 10 \<and>
   entry (nodeSources (snd (DeleteEdge (NewNID ''node1'') (NewNID ''node2'') two_edges)))
     (NewNID ''node1'') (NewNID ''node3'') = Some 10 \<and>
   entry (nodeTargets (snd (DeleteEdge (NewNID ''node1'') (NewNID ''node2'') two_edges)))
     (NewNID ''node3'') (NewNID ''node1'') = Some 10"
proof -
  have h: "fst (AddEdge (NewNID ''node1'') (NewNID ''node2'') 1 two_edges) = None"
    "fst (ReplaceEdge (NewNID ''node1'') (NewNID ''node2'') 1 two_edges) = None"
    "fst (DeleteEdge (NewNID ''node1'') (NewNID ''node2'') two_edges) = None"
    by (simp_all add: AddEdge_def ReplaceEdge_def DeleteEdge_def unsafeIdExist_iff
        two_edges_entries three_nodes_simps NewNID_def)
  have d: "(NewNID ''node1'', NewNID ''node3'') \<noteq> (NewNID ''node1'', NewNID ''node2'')"
    by (simp add: NewNID_def)
  from h d edge_operations_frame [of "NewNID ''node1''" "NewNID ''node2''" 1 two_edges]
  show ?thesis by (simp add: two_edges_entries NewNID_def)
qed

end
